theory Spec2Isabelle
  imports Complex_Main "HOL-Library.Sublist"
begin

section \<open>Privacy Glasses: data model\<close>

text \<open>
  The plugin lives in one source file, \<^verbatim>\<open>main.ts\<close>. Its class
  \<^verbatim>\<open>PrivacyGlassesPlugin\<close> holds the current level, the settings, the time of the last
  user event and the array \<^verbatim>\<open>revealed\<close> of container elements. Everything the methods
  read from the host (the open leaves, the metadata cache, the class lists of the DOM
  elements, the pending timers) is carried in the same record, so that each method is a
  function from a state to a state.
\<close>

datatype Level = HideAll | HidePrivate | RevealAll | RevealHeadlines

text \<open>
  The members of \<^verbatim>\<open>enum CssClass\<close> are strings, and two of them, \<^verbatim>\<open>Reveal\<close> and
  \<^verbatim>\<open>PrivacyGlassesReveal\<close>, are the same string.
\<close>

definition BlurAll :: string where "BlurAll = ''privacy-glasses-blur-all''"
definition RevealOnHover :: string where "RevealOnHover = ''privacy-glasses-reveal-on-hover''"
definition CssRevealAll :: string where "CssRevealAll = ''privacy-glasses-reveal-all''"
definition RevealUnderCaret :: string where "RevealUnderCaret = ''privacy-glasses-reveal-under-caret''"
definition CssRevealHeadlines :: string where "CssRevealHeadlines = ''privacy-glasses-reveal-headlines''"
definition Reveal :: string where "Reveal = ''privacy-glasses-reveal''"
definition IsMdView :: string where "IsMdView = ''is-md-view''"
definition IsNonMdView :: string where "IsNonMdView = ''is-non-md-view''"
definition IsMdViewHeadlinesOnly :: string where "IsMdViewHeadlinesOnly = ''is-md-view-headlines-only''"
definition PrivacyGlassesReveal :: string where "PrivacyGlassesReveal = ''privacy-glasses-reveal''"

text \<open>
  What can be thrown: the TypeError that JavaScript raises by itself (a property read on
  \<^verbatim>\<open>undefined\<close>, \<^verbatim>\<open>in\<close> applied to something that is not an object, a call of
  something that is not a function), and whatever the host's own switch operation throws.
\<close>

datatype error = TypeError | HostError string

record PrivacyGlassesSettings =
  blurOnStartup :: Level
  blurLevel :: real
  blurOnIdleTimeoutSeconds :: real
  hoverToReveal :: bool
  revealUnderCaret :: bool
  privateDirs :: string
  privateNoteMarker :: string

definition DEFAULT_SETTINGS :: PrivacyGlassesSettings where
  "DEFAULT_SETTINGS =
     \<lparr>blurOnStartup = HidePrivate, blurLevel = 3 / 10, blurOnIdleTimeoutSeconds = - 1,
      hoverToReveal = True, revealUnderCaret = False, privateDirs = [],
      privateNoteMarker = ''#private''\<rparr>"

subsection \<open>Files and their metadata\<close>

text \<open>
  \<^verbatim>\<open>view.file.parent.path\<close>: a file has a parent folder (\<^verbatim>\<open>TFolder | null\<close> in the
  host's types), and a folder has a path.
\<close>

record TFolder =
  path :: string

record TFile =
  parent :: "TFolder option"

text \<open>
  The frontmatter of a note is parsed YAML, so the value under its \<^verbatim>\<open>tags\<close> key is any
  JavaScript value: a list, a single string, \<^verbatim>\<open>null\<close>.
\<close>

datatype jsvalue =
    JsUndefined
  | JsNull
  | JsBoolean bool
  | JsNumber int
  | JsString string
  | JsArray "jsvalue list"

text \<open>\<^verbatim>\<open>!!x\<close>\<close>

fun truthy :: "jsvalue \<Rightarrow> bool" where
  "truthy JsUndefined = False"
| "truthy JsNull = False"
| "truthy (JsBoolean b) = b"
| "truthy (JsNumber n) = (n \<noteq> 0)"
| "truthy (JsString s) = (s \<noteq> [])"
| "truthy (JsArray xs) = True"

record TagCache =
  tag :: string

text \<open>
  \<^verbatim>\<open>'tags' in frontmatter\<close> asks whether the key is there: \<open>None\<close> when it is not,
  \<open>Some v\<close> when it is, with its value.
\<close>

record FrontMatterCache =
  fm_tags :: "jsvalue option"

text \<open>Both fields of the host's \<^verbatim>\<open>CachedMetadata\<close> are optional.\<close>

record CachedMetadata =
  tags :: "TagCache list option"
  frontmatter :: "FrontMatterCache option"

subsection \<open>Views\<close>

text \<open>
  \<^verbatim>\<open>isMarkdownFileInfoView\<close> asks for an own property \<^verbatim>\<open>file\<close>, whose value may be
  \<^verbatim>\<open>null\<close>. The value held in a \<^verbatim>\<open>setState\<close> slot is the host's function, a wrapper
  around whatever \<^verbatim>\<open>hookViewStateChanged\<close> found on the prototype, or something that is
  not a function.
\<close>

datatype file_property = NoFileProperty | FileProperty "TFile option"

datatype setState_value =
    NotAFunction
  | HostSetState nat
  | Wrapper setState_value

type_synonym HTMLElement = nat

record View =
  file_property :: file_property
  editor :: bool
  containerEl :: HTMLElement
  own_setState :: "setState_value option"
  proto_setState :: setState_value

subsection \<open>The plugin and what it sees of the host\<close>

record PrivacyGlassesPlugin =
  settings :: PrivacyGlassesSettings
  lastEventTime :: "real option"
  currentLevel :: Level
  revealed :: "HTMLElement list"
  leaves :: "View list"
  getFileCache :: "TFile option \<Rightarrow> CachedMetadata option"
  classList :: "HTMLElement \<Rightarrow> string set"
  body_classList :: "string set"
  timeouts :: "nat list"

section \<open>The visibility policy\<close>

text \<open>
  \<^verbatim>\<open>settings.privateDirs\<close> is a string, so \<^verbatim>\<open>privateDirs.contains(p)\<close> is the host's
  \<^verbatim>\<open>String.prototype.contains\<close>: \<open>p\<close> occurs in it as a contiguous substring.
\<close>

fun contains :: "string \<Rightarrow> string \<Rightarrow> bool" where
  "contains [] target = (target = [])"
| "contains (c # s) target = (prefix target (c # s) \<or> contains s target)"

definition isMarkdownFileInfoView :: "View \<Rightarrow> bool" where
  "isMarkdownFileInfoView x = (file_property x \<noteq> NoFileProperty)"

text \<open>Reading \<^verbatim>\<open>view.file\<close> of a view that passed \<^verbatim>\<open>isMarkdownFileInfoView\<close>.\<close>

definition view_file :: "View \<Rightarrow> TFile option" where
  "view_file view = (case file_property view of NoFileProperty \<Rightarrow> None | FileProperty f \<Rightarrow> f)"

text \<open>
  Lines 294 to 302 of \<^verbatim>\<open>shouldRevealLeaf\<close>, which build the array \<^verbatim>\<open>tags\<close> from the cache
  entry of the file. \<^verbatim>\<open>'tags' in x\<close> raises a TypeError when \<open>x\<close> is \<^verbatim>\<open>null\<close> or
  \<^verbatim>\<open>undefined\<close>: so does a missing cache entry at the first test, and a missing
  frontmatter at the second. A frontmatter \<^verbatim>\<open>tags\<close> value that is not an array has no
  \<^verbatim>\<open>filter\<close> method.
\<close>

definition noteTags :: "CachedMetadata option \<Rightarrow> error + jsvalue list" where
  "noteTags cache =
     (case cache of
        None \<Rightarrow> Inl TypeError
      | Some c \<Rightarrow>
          (let body = (case tags c of
                         None \<Rightarrow> []
                       | Some ts \<Rightarrow> map (\<lambda>x. JsString (tag x)) (filter (\<lambda>x. tag x \<noteq> []) ts))
           in case frontmatter c of
                None \<Rightarrow> Inl TypeError
              | Some fm \<Rightarrow>
                  (case fm_tags fm of
                     None \<Rightarrow> Inr body
                   | Some (JsArray xs) \<Rightarrow> Inr (body @ filter truthy xs)
                   | Some _ \<Rightarrow> Inl TypeError)))"

text \<open>
  Lines 289 to 306: the marker rule. \<open>Inr None\<close> is falling out of the \<^verbatim>\<open>if\<close> without
  returning.
\<close>

definition markerRule :: "PrivacyGlassesPlugin \<Rightarrow> View \<Rightarrow> error + bool option" where
  "markerRule p view =
     (if editor view \<and> privateNoteMarker (settings p) \<noteq> [] then
        (case noteTags (getFileCache p (view_file view)) of
           Inl e \<Rightarrow> Inl e
         | Inr ts \<Rightarrow>
             if length ts > 0
             then Inr (Some (JsString (privateNoteMarker (settings p)) \<notin> set ts))
             else Inr None)
      else Inr None)"

text \<open>Lines 308 to 315: the directory rule.\<close>

definition directoryRule :: "PrivacyGlassesPlugin \<Rightarrow> View \<Rightarrow> error + bool" where
  "directoryRule p view =
     (case view_file view of
        None \<Rightarrow> Inr False
      | Some f \<Rightarrow>
          (case parent f of
             None \<Rightarrow> Inl TypeError
           | Some d \<Rightarrow> Inr (\<not> contains (privateDirs (settings p)) (path d))))"

definition shouldRevealLeaf :: "PrivacyGlassesPlugin \<Rightarrow> View \<Rightarrow> error + bool" where
  "shouldRevealLeaf p view =
     (if currentLevel p = RevealAll then Inr True
      else if currentLevel p = HideAll \<or> currentLevel p = RevealHeadlines then Inr False
      else if \<not> isMarkdownFileInfoView view then Inr True
      else (case markerRule p view of
              Inl e \<Rightarrow> Inl e
            | Inr (Some b) \<Rightarrow> Inr b
            | Inr None \<Rightarrow> directoryRule p view))"

text \<open>
  \<^verbatim>\<open>updatePrivateDirsEl\<close> reads the same setting for the style sheet of the file
  explorer: it splits it at the commas (\<^verbatim>\<open>settings.privateDirs.split(",")\<close>, line 408)
  and writes, for each part \<open>d\<close>, rules with the selector \<^verbatim>\<open>[data-path^=d]\<close>, which
  selects the entries whose path starts with \<open>d\<close>.
\<close>

fun split :: "string \<Rightarrow> char \<Rightarrow> string list" where
  "split [] sep = [[]]"
| "split (c # s) sep =
     (if c = sep then [] # split s sep
      else (case split s sep of
              [] \<Rightarrow> [[c]]
            | w # ws \<Rightarrow> (c # w) # ws))"

definition dirs :: "PrivacyGlassesPlugin \<Rightarrow> string list" where
  "dirs p = split (privateDirs (settings p)) (CHR '','')"

section \<open>Styling the leaves\<close>

text \<open>
  A method that can be left by an exception returns the state as it is at that point,
  with the exception: what was written to the DOM before a throw stays written.
\<close>

definition updateLeafViewStyle ::
    "View \<Rightarrow> PrivacyGlassesPlugin \<Rightarrow> PrivacyGlassesPlugin \<times> error option" where
  "updateLeafViewStyle view p =
     (let isMd = (isMarkdownFileInfoView view \<and> editor view);
          el = containerEl view;
          c0 = classList p el - {IsMdView, IsNonMdView, IsMdViewHeadlinesOnly};
          c1 = (if isMd \<and> currentLevel p = RevealHeadlines then insert IsMdViewHeadlinesOnly c0
                else if isMd then insert IsMdView c0
                else insert IsNonMdView c0);
          p1 = p\<lparr>classList := (classList p)(el := c1)\<rparr>
      in case shouldRevealLeaf p1 view of
           Inl e \<Rightarrow> (p1, Some e)
         | Inr shouldReveal \<Rightarrow>
             if shouldReveal
             then (p1\<lparr>classList := (classList p1)(el := insert PrivacyGlassesReveal c1),
                      revealed := revealed p1 @ [el]\<rparr>, None)
             else (p1\<lparr>classList := (classList p1)(el := c1 - {PrivacyGlassesReveal})\<rparr>, None))"

text \<open>
  \<^verbatim>\<open>app.workspace.iterateAllLeaves(callback)\<close> calls the callback on each open leaf in
  turn; an exception in the callback ends the iteration.
\<close>

fun iterateAllLeaves ::
    "(View \<Rightarrow> 's \<Rightarrow> 's \<times> error option) \<Rightarrow> View list \<Rightarrow> 's \<Rightarrow> 's \<times> error option" where
  "iterateAllLeaves callback [] s = (s, None)"
| "iterateAllLeaves callback (e # es) s =
     (case callback e s of
        (s', Some err) \<Rightarrow> (s', Some err)
      | (s', None) \<Rightarrow> iterateAllLeaves callback es s')"

definition updateLeavesStyle :: "PrivacyGlassesPlugin \<Rightarrow> PrivacyGlassesPlugin \<times> error option" where
  "updateLeavesStyle p = iterateAllLeaves updateLeafViewStyle (leaves p) p"

definition removeAllClasses :: "PrivacyGlassesPlugin \<Rightarrow> PrivacyGlassesPlugin" where
  "removeAllClasses p =
     p\<lparr>body_classList :=
         body_classList p
           - {BlurAll, RevealOnHover, CssRevealAll, RevealUnderCaret, CssRevealHeadlines}\<rparr>"

definition setClassToDocumentBody :: "Level \<Rightarrow> PrivacyGlassesPlugin \<Rightarrow> PrivacyGlassesPlugin" where
  "setClassToDocumentBody level p =
     (case level of
        HideAll \<Rightarrow> p\<lparr>body_classList := insert BlurAll (body_classList p)\<rparr>
      | RevealAll \<Rightarrow> p\<lparr>body_classList := insert CssRevealAll (body_classList p)\<rparr>
      | RevealHeadlines \<Rightarrow> p\<lparr>body_classList := insert CssRevealHeadlines (body_classList p)\<rparr>
      | HidePrivate \<Rightarrow> p)"

definition updateGlobalRevealStyle :: "PrivacyGlassesPlugin \<Rightarrow> PrivacyGlassesPlugin" where
  "updateGlobalRevealStyle p =
     (let p1 = setClassToDocumentBody (currentLevel p) (removeAllClasses p);
          p2 = (if hoverToReveal (settings p1)
                then p1\<lparr>body_classList := insert RevealOnHover (body_classList p1)\<rparr> else p1)
      in if revealUnderCaret (settings p2)
         then p2\<lparr>body_classList := insert RevealUnderCaret (body_classList p2)\<rparr> else p2)"

definition updateLeavesAndGlobalReveals ::
    "PrivacyGlassesPlugin \<Rightarrow> PrivacyGlassesPlugin \<times> error option" where
  "updateLeavesAndGlobalReveals p =
     (case updateLeavesStyle p of
        (p', Some err) \<Rightarrow> (p', Some err)
      | (p', None) \<Rightarrow> (updateGlobalRevealStyle p', None))"

section \<open>The idle monitor\<close>

text \<open>
  \<^verbatim>\<open>checkIdleTimeout\<close> reads the clock once; \<open>now\<close> is what \<^verbatim>\<open>performance.now()\<close>
  returns, in milliseconds. \<^verbatim>\<open>!this.lastEventTime\<close> holds when the field is
  \<^verbatim>\<open>undefined\<close> and also when it is the number zero.

  The numbers of the source are IEEE-754 doubles. A finite double is the real number it
  denotes, and \<^verbatim>\<open><\<close> and \<^verbatim>\<open>>=\<close> on finite doubles are the comparisons of these reals.
  The difference and the quotient of two doubles are not those of the reals: each is
  rounded to a double. The two operations are therefore parameters of the function:
  \<open>fsub a b\<close> is the double that \<^verbatim>\<open>a - b\<close> evaluates to and \<open>fdiv a b\<close> the double that
  \<^verbatim>\<open>a / b\<close> evaluates to, whatever the rounding makes them. The test of line 252 is
  made on the double the code computes, \<open>fdiv (fsub now t) 1000\<close>. NaN and the
  infinities are not among the values.
\<close>

definition checkIdleTimeout ::
    "(real \<Rightarrow> real \<Rightarrow> real) \<Rightarrow> (real \<Rightarrow> real \<Rightarrow> real) \<Rightarrow> real
       \<Rightarrow> PrivacyGlassesPlugin \<Rightarrow> PrivacyGlassesPlugin \<times> error option" where
  "checkIdleTimeout fsub fdiv now p =
     (if blurOnIdleTimeoutSeconds (settings p) < 0 then (p, None)
      else if currentLevel p = HideAll then (p, None)
      else (case lastEventTime p of
              None \<Rightarrow> (p, None)
            | Some t \<Rightarrow>
                if t = 0 then (p, None)
                else if fdiv (fsub now t) 1000 \<ge> blurOnIdleTimeoutSeconds (settings p)
                then updateLeavesAndGlobalReveals (p\<lparr>currentLevel := HideAll\<rparr>)
                else (p, None)))"

section \<open>Hooking the switch operation of a view\<close>

text \<open>\<^verbatim>\<open>typeof x === "function"\<close>\<close>

fun isFunction :: "setState_value \<Rightarrow> bool" where
  "isFunction NotAFunction = False"
| "isFunction (HostSetState k) = True"
| "isFunction (Wrapper original) = True"

definition isHooked :: "View \<Rightarrow> bool" where
  "isHooked view =
     (case own_setState view of
        None \<Rightarrow> False
      | Some f \<Rightarrow> isFunction f)"

text \<open>
  \<^verbatim>\<open>hookViewStateChanged\<close> reads \<^verbatim>\<open>setState\<close> from the prototype of the view, closes the
  wrapper over it and stores the wrapper as an own property of the view. The two
  callbacks it is given are always the plugin's \<^verbatim>\<open>onBeforeViewStateChange\<close> and
  \<^verbatim>\<open>onAfterViewStateChange\<close>.
\<close>

definition hookViewStateChanged :: "View \<Rightarrow> View" where
  "hookViewStateChanged view = view\<lparr>own_setState := Some (Wrapper (proto_setState view))\<rparr>"

text \<open>
  The callback that \<^verbatim>\<open>ensureLeavesHooked\<close> gives to \<^verbatim>\<open>iterateAllLeaves\<close> writes to the
  view of its leaf only and cannot raise, so the iteration is a map over the leaves.
\<close>

definition ensureLeavesHooked :: "PrivacyGlassesPlugin \<Rightarrow> PrivacyGlassesPlugin" where
  "ensureLeavesHooked p =
     p\<lparr>leaves := map (\<lambda>view. if isHooked view then view else hookViewStateChanged view)
                       (leaves p)\<rparr>"

text \<open>
  What a call \<^verbatim>\<open>view.setState(...)\<close> resolves to, and how many wrappers are stacked in a
  value.
\<close>

definition setState :: "View \<Rightarrow> setState_value" where
  "setState view = (case own_setState view of None \<Rightarrow> proto_setState view | Some f \<Rightarrow> f)"

fun wrapperLayers :: "setState_value \<Rightarrow> nat" where
  "wrapperLayers (Wrapper original) = Suc (wrapperLayers original)"
| "wrapperLayers NotAFunction = 0"
| "wrapperLayers (HostSetState k) = 0"

subsection \<open>The two callbacks\<close>

definition onBeforeViewStateChange :: "PrivacyGlassesPlugin \<Rightarrow> PrivacyGlassesPlugin" where
  "onBeforeViewStateChange p =
     p\<lparr>classList := foldl (\<lambda>cl r. cl(r := cl r - {Reveal})) (classList p) (revealed p)\<rparr>"

text \<open>
  \<^verbatim>\<open>setTimeout(..., 200)\<close> adds a pending timer, whose body is \<^verbatim>\<open>updateLeavesStyle\<close>;
  the rescan for unhooked leaves is immediate.
\<close>

definition onAfterViewStateChange :: "PrivacyGlassesPlugin \<Rightarrow> PrivacyGlassesPlugin" where
  "onAfterViewStateChange p = ensureLeavesHooked (p\<lparr>timeouts := timeouts p @ [200]\<rparr>)"

subsection \<open>The wrapper\<close>

text \<open>
  The host's switch operation either throws or returns a value \<open>r\<close>. The wrapper reads
  \<^verbatim>\<open>r.then\<close>: that read raises a TypeError when \<open>r\<close> is \<^verbatim>\<open>undefined\<close> or \<^verbatim>\<open>null\<close>;
  otherwise \<open>r\<close> is a thenable, which ends fulfilled, rejected or not at all, or it is
  not. \<^verbatim>\<open>r.then(f)\<close> with one argument runs \<open>f\<close> when the thenable is fulfilled, and
  only then. The state a call returns is the state once the thenable has ended; nothing
  else is taken to run in between. The function is written for any two callbacks and any
  underlying operation, as the source is; the value \<open>Wrapper original\<close> in a
  \<^verbatim>\<open>setState\<close> slot stands for this function closed over the plugin's two callbacks and
  over \<open>original\<close>.
\<close>

datatype promise = Fulfilled | Rejected error | Pending

datatype returned = Undefined | NonThenable | Thenable promise

datatype completion = Throw error | Return returned

definition wrapper ::
    "('s \<Rightarrow> 's) \<Rightarrow> ('s \<Rightarrow> 's) \<Rightarrow> ('s \<Rightarrow> 's \<times> completion) \<Rightarrow> 's \<Rightarrow> 's \<times> completion" where
  "wrapper onBeforeStateChange onAfterStateChange original s =
     (case original (onBeforeStateChange s) of
        (s', Throw e) \<Rightarrow> (s', Throw e)
      | (s', Return r) \<Rightarrow>
          (case r of
             Undefined \<Rightarrow> (s', Throw TypeError)
           | Thenable pr \<Rightarrow>
               (case pr of
                  Fulfilled \<Rightarrow> (onAfterStateChange s', Return r)
                | Rejected e \<Rightarrow> (s', Return r)
                | Pending \<Rightarrow> (s', Return r))
           | NonThenable \<Rightarrow> (onAfterStateChange s', Return r)))"

section \<open>Scenarios\<close>

text \<open>
  The settings of the specification's scenarios: the defaults, so the marker is
  \<^verbatim>\<open>#private\<close>, with the private directories \<^verbatim>\<open>finance,therapy\<close>. The plugin is at
  level HidePrivate, and the metadata cache answers every lookup with the given entry.
\<close>

definition scenarioSettings :: PrivacyGlassesSettings where
  "scenarioSettings = DEFAULT_SETTINGS\<lparr>privateDirs := ''finance,therapy''\<rparr>"

definition scenarioPlugin :: "CachedMetadata option \<Rightarrow> PrivacyGlassesPlugin" where
  "scenarioPlugin cache =
     \<lparr>settings = scenarioSettings, lastEventTime = Some 1000, currentLevel = HidePrivate,
      revealed = [], leaves = [], getFileCache = (\<lambda>f. cache), classList = (\<lambda>el. {}),
      body_classList = {}, timeouts = []\<rparr>"

text \<open>A view on a file in the folder \<open>dir\<close>, with or without an editor.\<close>

definition scenarioView :: "bool \<Rightarrow> string \<Rightarrow> View" where
  "scenarioView ed dir =
     \<lparr>file_property = FileProperty (Some \<lparr>parent = Some \<lparr>path = dir\<rparr>\<rparr>), editor = ed,
      containerEl = 0, own_setState = None, proto_setState = HostSetState 0\<rparr>"

text \<open>A view whose \<^verbatim>\<open>file\<close> property is \<^verbatim>\<open>null\<close>.\<close>

definition untitledView :: "bool \<Rightarrow> View" where
  "untitledView ed =
     \<lparr>file_property = FileProperty None, editor = ed,
      containerEl = 0, own_setState = None, proto_setState = HostSetState 0\<rparr>"

text \<open>A view of another kind, with no \<^verbatim>\<open>file\<close> property, on the element \<open>el\<close>.\<close>

definition sidePanel :: "HTMLElement \<Rightarrow> View" where
  "sidePanel el =
     \<lparr>file_property = NoFileProperty, editor = False, containerEl = el,
      own_setState = None, proto_setState = HostSetState 0\<rparr>"

text \<open>
  Cache entries: a note with an empty frontmatter and no tag, a note with the body tags
  \<^verbatim>\<open>#private\<close> and \<^verbatim>\<open>x\<close>, and a note with one body tag and no frontmatter at all.
\<close>

definition untaggedNote :: "CachedMetadata option" where
  "untaggedNote = Some \<lparr>tags = None, frontmatter = Some \<lparr>fm_tags = None\<rparr>\<rparr>"

definition taggedNote :: "CachedMetadata option" where
  "taggedNote =
     Some \<lparr>tags = Some [\<lparr>tag = ''#private''\<rparr>, \<lparr>tag = ''x''\<rparr>],
           frontmatter = Some \<lparr>fm_tags = None\<rparr>\<rparr>"

definition plainNote :: "CachedMetadata option" where
  "plainNote = Some \<lparr>tags = Some [\<lparr>tag = ''#todo''\<rparr>], frontmatter = None\<rparr>"

text \<open>The plugin at level RevealAll with a given idle timeout and last event time.\<close>

definition idlePlugin :: "real \<Rightarrow> real option \<Rightarrow> PrivacyGlassesPlugin" where
  "idlePlugin timeout lastEvent =
     (scenarioPlugin None)
       \<lparr>settings := scenarioSettings\<lparr>blurOnIdleTimeoutSeconds := timeout\<rparr>,
        lastEventTime := lastEvent, currentLevel := RevealAll\<rparr>"

text \<open>Two open side panels, on the elements 1 and 2.\<close>

definition twoPanels :: PrivacyGlassesPlugin where
  "twoPanels = (scenarioPlugin None)\<lparr>leaves := [sidePanel 1, sidePanel 2]\<rparr>"

text \<open>
  A panel that has an own property \<^verbatim>\<open>setState\<close> before any hook is installed, and three
  open panels: one as the host makes them, one whose own \<^verbatim>\<open>setState\<close> is not a
  function, and one whose own \<^verbatim>\<open>setState\<close> is a function of its own.
\<close>

definition ownSetStatePanel :: "HTMLElement \<Rightarrow> setState_value \<Rightarrow> View" where
  "ownSetStatePanel el f = (sidePanel el)\<lparr>own_setState := Some f\<rparr>"

definition mixedPanels :: PrivacyGlassesPlugin where
  "mixedPanels =
     (scenarioPlugin None)
       \<lparr>leaves := [sidePanel 1, ownSetStatePanel 2 NotAFunction,
                   ownSetStatePanel 3 (HostSetState 1)]\<rparr>"

section \<open>Evaluation and auxiliary facts\<close>

lemmas scenario_defs =
  scenarioSettings_def scenarioPlugin_def scenarioView_def DEFAULT_SETTINGS_def

lemmas policy_defs =
  shouldRevealLeaf_def isMarkdownFileInfoView_def markerRule_def noteTags_def view_file_def
  directoryRule_def

lemmas style_defs =
  updateLeavesStyle_def updateLeafViewStyle_def updateLeavesAndGlobalReveals_def
  updateGlobalRevealStyle_def setClassToDocumentBody_def removeAllClasses_def

text \<open>\<^verbatim>\<open>contains\<close> is the substring test of the list library.\<close>

lemma contains_sublist: "contains s t \<longleftrightarrow> sublist t s"
  by (induction s) (auto simp: sublist_Cons_right)

text \<open>
  When the array of tags can be built: exactly when the cache has an entry for the file,
  the entry has a frontmatter, and the frontmatter has no \<^verbatim>\<open>tags\<close> key or a list under it.
\<close>

lemma noteTags_raises_iff:
  "noteTags cache = Inl TypeError
     \<longleftrightarrow> (case cache of
            None \<Rightarrow> True
          | Some c \<Rightarrow> (case frontmatter c of
                         None \<Rightarrow> True
                       | Some fm \<Rightarrow> (case fm_tags fm of
                                      None \<Rightarrow> False
                                    | Some v \<Rightarrow> (\<forall>xs. v \<noteq> JsArray xs))))"
  by (auto simp: noteTags_def Let_def split: option.splits jsvalue.splits)

text \<open>The policy reads the settings, the level and the metadata cache, nothing else.\<close>

lemma shouldRevealLeaf_cong:
  assumes "settings p' = settings p" "currentLevel p' = currentLevel p"
    "getFileCache p' = getFileCache p"
  shows "shouldRevealLeaf p' view = shouldRevealLeaf p view"
  unfolding shouldRevealLeaf_def markerRule_def directoryRule_def
  by (simp only: assms)

lemma shouldRevealLeaf_classList [simp]:
  "shouldRevealLeaf (p\<lparr>classList := c\<rparr>) view = shouldRevealLeaf p view"
  by (rule shouldRevealLeaf_cong) simp_all

text \<open>
  With a file in a folder and no decision of the marker rule, the answer is the
  substring test on the unsplit setting.
\<close>

lemma directory_rule_is_substring_test:
  assumes "currentLevel p = HidePrivate"
    and "file_property view = FileProperty (Some f)" and "parent f = Some d"
    and "\<not> editor view \<or> privateNoteMarker (settings p) = []
         \<or> noteTags (getFileCache p (Some f)) = Inr []"
  shows "shouldRevealLeaf p view = Inr (\<not> sublist (path d) (privateDirs (settings p)))"
  using assms by (auto simp: policy_defs contains_sublist)

text \<open>
  A view with no file is hidden when the marker rule is not entered. When it is entered,
  the cache is asked about \<^verbatim>\<open>null\<close>, and the answer depends on what the host returns
  for that: an exception unless it is an entry with a frontmatter.
\<close>

lemma no_file_hidden_when_marker_rule_skipped:
  assumes "currentLevel p = HidePrivate" and "file_property view = FileProperty None"
    and "\<not> editor view \<or> privateNoteMarker (settings p) = []"
  shows "shouldRevealLeaf p view = Inr False"
  using assms by (auto simp: policy_defs)

lemma no_file_editor_view:
  assumes "currentLevel p = HidePrivate" and "file_property view = FileProperty None"
    and "editor view" and "privateNoteMarker (settings p) \<noteq> []"
  shows "shouldRevealLeaf p view
           = (case noteTags (getFileCache p None) of
                Inl e \<Rightarrow> Inl e
              | Inr ts \<Rightarrow>
                  Inr (ts \<noteq> [] \<and> JsString (privateNoteMarker (settings p)) \<notin> set ts))"
  using assms
  by (simp add: shouldRevealLeaf_def isMarkdownFileInfoView_def markerRule_def view_file_def
      directoryRule_def split: sum.splits)

text \<open>Removing a class from each element of a list, one after the other.\<close>

lemma foldl_removeClass:
  "foldl (\<lambda>cl r. cl(r := cl r - {c})) cl rs e = (if e \<in> set rs then cl e - {c} else cl e)"
  by (induction rs arbitrary: cl) auto

text \<open>What styling one leaf, and then all of them, leaves alone and what it appends.\<close>

lemma updateLeafViewStyle_frame:
  "updateLeafViewStyle view p = (p', x) \<Longrightarrow>
     settings p' = settings p \<and> currentLevel p' = currentLevel p \<and> getFileCache p' = getFileCache p
     \<and> leaves p' = leaves p \<and> lastEventTime p' = lastEventTime p \<and> timeouts p' = timeouts p
     \<and> body_classList p' = body_classList p"
  by (auto simp: updateLeafViewStyle_def Let_def split: sum.splits if_splits)

lemma updateLeafViewStyle_revealed:
  "updateLeafViewStyle view p = (p', x) \<Longrightarrow>
     revealed p' = revealed p @ (if shouldRevealLeaf p view = Inr True then [containerEl view] else [])"
  by (auto simp: updateLeafViewStyle_def Let_def split: sum.splits if_splits)

lemma iterateAllLeaves_frame:
  "iterateAllLeaves updateLeafViewStyle es p = (p', x) \<Longrightarrow>
     settings p' = settings p \<and> currentLevel p' = currentLevel p \<and> getFileCache p' = getFileCache p
     \<and> leaves p' = leaves p \<and> lastEventTime p' = lastEventTime p \<and> timeouts p' = timeouts p
     \<and> body_classList p' = body_classList p"
proof (induction es arbitrary: p)
  case Nil
  then show ?case by simp
next
  case (Cons e es)
  obtain p1 x1 where s: "updateLeafViewStyle e p = (p1, x1)" by (cases "updateLeafViewStyle e p")
  note f = updateLeafViewStyle_frame[OF s]
  show ?case
  proof (cases x1)
    case None
    with Cons.prems s have "iterateAllLeaves updateLeafViewStyle es p1 = (p', x)" by simp
    from Cons.IH[OF this] f show ?thesis by simp
  next
    case (Some err)
    with Cons.prems s have "p' = p1" by simp
    with f show ?thesis by simp
  qed
qed

lemma iterateAllLeaves_revealed_prefix:
  "iterateAllLeaves updateLeafViewStyle es p = (p', x) \<Longrightarrow> prefix (revealed p) (revealed p')"
proof (induction es arbitrary: p)
  case Nil
  then show ?case by simp
next
  case (Cons e es)
  obtain p1 x1 where s: "updateLeafViewStyle e p = (p1, x1)" by (cases "updateLeafViewStyle e p")
  have r: "prefix (revealed p) (revealed p1)" using updateLeafViewStyle_revealed[OF s] by simp
  show ?case
  proof (cases x1)
    case None
    with Cons.prems s have "iterateAllLeaves updateLeafViewStyle es p1 = (p', x)" by simp
    from Cons.IH[OF this] r show ?thesis by (rule prefix_order.trans[rotated])
  next
    case (Some err)
    with Cons.prems s have "p' = p1" by simp
    with r show ?thesis by simp
  qed
qed

lemma iterateAllLeaves_revealed:
  "iterateAllLeaves updateLeafViewStyle es p = (p', None) \<Longrightarrow>
     revealed p' = revealed p @ map containerEl (filter (\<lambda>v. shouldRevealLeaf p v = Inr True) es)"
proof (induction es arbitrary: p)
  case Nil
  then show ?case by simp
next
  case (Cons e es)
  obtain p1 x1 where s: "updateLeafViewStyle e p = (p1, x1)" by (cases "updateLeafViewStyle e p")
  note f = updateLeafViewStyle_frame[OF s]
  from Cons.prems s have x1: "x1 = None" by (cases x1) auto
  with Cons.prems s have "iterateAllLeaves updateLeafViewStyle es p1 = (p', None)" by simp
  from Cons.IH[OF this] have "revealed p' = revealed p1 @ map containerEl (filter (\<lambda>v. shouldRevealLeaf p1 v = Inr True) es)" .
  moreover have "\<And>v. shouldRevealLeaf p1 v = shouldRevealLeaf p v"
    using f by (intro shouldRevealLeaf_cong) simp_all
  ultimately show ?case using updateLeafViewStyle_revealed[OF s] by simp
qed

lemma updateLeavesAndGlobalReveals_level:
  "currentLevel (fst (updateLeavesAndGlobalReveals p)) = currentLevel p"
proof -
  obtain p1 x1 where s: "updateLeavesStyle p = (p1, x1)" by (cases "updateLeavesStyle p")
  then have "currentLevel p1 = currentLevel p"
    using iterateAllLeaves_frame[of "leaves p" p p1 x1] by (simp add: updateLeavesStyle_def)
  then show ?thesis using s
    by (cases x1) (simp_all add: updateLeavesAndGlobalReveals_def updateGlobalRevealStyle_def
        setClassToDocumentBody_def removeAllClasses_def Let_def split: Level.splits)
qed


text \<open>A hooked view stays as it is, so a second pass changes nothing.\<close>

lemma isHooked_hookViewStateChanged: "isHooked (hookViewStateChanged view)"
  by (simp add: isHooked_def hookViewStateChanged_def)

lemma ensureLeavesHooked_idem: "ensureLeavesHooked (ensureLeavesHooked p) = ensureLeavesHooked p"
  by (simp add: ensureLeavesHooked_def isHooked_hookViewStateChanged)

lemma ensureLeavesHooked_funpow: "(ensureLeavesHooked ^^ Suc n) p = ensureLeavesHooked p"
  by (induction n) (simp_all add: ensureLeavesHooked_idem)

section \<open>The visibility policy: claims\<close>

text \<open>
  C5: whatever the view and the settings, \<^verbatim>\<open>shouldRevealLeaf\<close> answers true at level
  RevealAll, false at level HideAll and false at level RevealHeadlines. No metadata is
  read at these levels, so nothing can be raised either.
\<close>

theorem shouldRevealLeaf_absolute_levels:
  "shouldRevealLeaf (p\<lparr>currentLevel := RevealAll\<rparr>) view = Inr True
   \<and> shouldRevealLeaf (p\<lparr>currentLevel := HideAll\<rparr>) view = Inr False
   \<and> shouldRevealLeaf (p\<lparr>currentLevel := RevealHeadlines\<rparr>) view = Inr False"
  by (simp add: shouldRevealLeaf_def)

text \<open>
  C1: at level HidePrivate, a document view with no tag is to be hidden exactly when the
  path of its folder starts with one of the private directories. The code does not do
  that. With the private directories \<^verbatim>\<open>finance,therapy\<close>, the note in
  \<^verbatim>\<open>therapy/notes\<close> is revealed: \<^verbatim>\<open>therapy/notes\<close> is not a substring of the setting.
  The style sheet that \<^verbatim>\<open>updatePrivateDirsEl\<close> writes for the file explorer splits the
  same setting at the commas and matches each part as a prefix of the path.
\<close>

theorem nested_private_directory_is_revealed:
  "privateDirs (settings (scenarioPlugin untaggedNote)) = ''finance,therapy''
   \<and> dirs (scenarioPlugin untaggedNote) = [''finance'', ''therapy'']
   \<and> prefix ''therapy'' ''therapy/notes''
   \<and> noteTags untaggedNote = Inr []
   \<and> shouldRevealLeaf (scenarioPlugin untaggedNote) (scenarioView True ''therapy/notes'')
       = Inr True"
  by (simp add: policy_defs dirs_def scenario_defs untaggedNote_def)

text \<open>
  The other folders of the scenario: \<^verbatim>\<open>work/notes\<close> is revealed and \<^verbatim>\<open>therapy\<close> itself
  is hidden, but so is a folder named \<^verbatim>\<open>the\<close>, or \<^verbatim>\<open>e,t\<close>.
\<close>

lemma directory_rule_scenarios:
  "shouldRevealLeaf (scenarioPlugin untaggedNote) (scenarioView True ''work/notes'') = Inr True
   \<and> shouldRevealLeaf (scenarioPlugin untaggedNote) (scenarioView True ''therapy'') = Inr False
   \<and> shouldRevealLeaf (scenarioPlugin untaggedNote) (scenarioView True ''the'') = Inr False
   \<and> shouldRevealLeaf (scenarioPlugin untaggedNote) (scenarioView True ''e,t'') = Inr False"
  by (simp add: policy_defs scenario_defs untaggedNote_def)

text \<open>
  C3, as stated, fails: a document view is any view with a \<^verbatim>\<open>file\<close> property, and the
  marker rule is entered only if the view has an editor too. The view below is on a note
  in \<^verbatim>\<open>work/notes\<close> with the tags \<^verbatim>\<open>#private\<close> and \<^verbatim>\<open>x\<close>, the marker is
  \<^verbatim>\<open>#private\<close>, and the view has no editor: it is revealed.
\<close>

theorem marker_rule_skipped_without_editor:
  "isMarkdownFileInfoView (scenarioView False ''work/notes'')
   \<and> privateNoteMarker (settings (scenarioPlugin taggedNote)) = ''#private''
   \<and> noteTags taggedNote = Inr [JsString ''#private'', JsString ''x'']
   \<and> shouldRevealLeaf (scenarioPlugin taggedNote) (scenarioView False ''work/notes'') = Inr True"
  by (simp add: policy_defs scenario_defs taggedNote_def)

text \<open>
  C3, amended: at level HidePrivate, for a document view that has an editor and whose
  tags can be read from the metadata cache, if the marker is not empty and the tags are
  not empty, then \<^verbatim>\<open>shouldRevealLeaf\<close> answers true exactly when the marker is not among
  the tags. The private directories are not consulted: the answer is the same whatever
  \<open>ds\<close> the setting holds.
\<close>

theorem marker_rule_decides:
  assumes "currentLevel p = HidePrivate" and "isMarkdownFileInfoView view" and "editor view"
    and "privateNoteMarker (settings p) \<noteq> []"
    and "noteTags (getFileCache p (view_file view)) = Inr ts" and "ts \<noteq> []"
  shows "shouldRevealLeaf (p\<lparr>settings := (settings p)\<lparr>privateDirs := ds\<rparr>\<rparr>) view
           = Inr (JsString (privateNoteMarker (settings p)) \<notin> set ts)"
  using assms by (simp add: shouldRevealLeaf_def markerRule_def)

text \<open>
  The scenario of C3 with an editor: the note in \<^verbatim>\<open>work/notes\<close> tagged \<^verbatim>\<open>#private\<close> and
  \<^verbatim>\<open>x\<close> is hidden.
\<close>

theorem marker_rule_decides_witness:
  "noteTags taggedNote = Inr [JsString ''#private'', JsString ''x'']
   \<and> shouldRevealLeaf (scenarioPlugin taggedNote) (scenarioView True ''work/notes'') = Inr False"
proof -
  let ?p = "scenarioPlugin taggedNote" and ?v = "scenarioView True ''work/notes''"
  have t: "noteTags (getFileCache ?p (view_file ?v)) = Inr [JsString ''#private'', JsString ''x'']"
    by (simp add: noteTags_def scenario_defs taggedNote_def)
  have "shouldRevealLeaf (?p\<lparr>settings := (settings ?p)\<lparr>privateDirs := ''finance,therapy''\<rparr>\<rparr>) ?v
          = Inr (JsString (privateNoteMarker (settings ?p)) \<notin> set [JsString ''#private'', JsString ''x''])"
    by (rule marker_rule_decides[OF _ _ _ _ t]) (simp_all add: scenario_defs isMarkdownFileInfoView_def)
  moreover have "?p\<lparr>settings := (settings ?p)\<lparr>privateDirs := ''finance,therapy''\<rparr>\<rparr> = ?p"
    by (simp add: scenario_defs)
  ultimately show ?thesis using t by (simp add: scenario_defs)
qed

text \<open>
  C4: a note whose metadata is missing is to count as a note without tags, and the
  evaluation is never to raise. The code raises a TypeError, at level HidePrivate with
  the default marker and a view with an editor, both for a note that has a cache entry
  without frontmatter (here with one body tag) and for a file the cache has no entry for.
\<close>

theorem missing_metadata_raises:
  "shouldRevealLeaf (scenarioPlugin plainNote) (scenarioView True ''work/notes'') = Inl TypeError
   \<and> shouldRevealLeaf (scenarioPlugin None) (scenarioView True ''work/notes'') = Inl TypeError"
  by (simp add: policy_defs scenario_defs plainNote_def)

text \<open>
  C9: at level HidePrivate a view whose \<^verbatim>\<open>file\<close> property is \<^verbatim>\<open>null\<close> is to be hidden,
  which is what the last test of \<^verbatim>\<open>shouldRevealLeaf\<close> says. With an editor and the
  default marker the code does not get there: it asks the metadata cache about \<^verbatim>\<open>null\<close>
  first, and with no entry for it a TypeError is raised.
\<close>

theorem untitled_editor_view_raises:
  "isMarkdownFileInfoView (untitledView True)
   \<and> view_file (untitledView True) = None
   \<and> shouldRevealLeaf (scenarioPlugin None) (untitledView True) = Inl TypeError"
  by (simp add: policy_defs scenario_defs untitledView_def)

text \<open>
  C10: at level HidePrivate, for a document view without an editor, the marker rule is
  skipped and the directory rule alone decides: the answer does not depend on the marker
  nor on what the metadata cache holds, and it is false when the view has no file, and
  otherwise true exactly when the path of the folder of the file does not occur in the
  private directories setting.
\<close>

theorem directory_rule_alone_without_editor:
  assumes "currentLevel p = HidePrivate" and "isMarkdownFileInfoView view" and "\<not> editor view"
  shows "shouldRevealLeaf p view = directoryRule p view
         \<and> shouldRevealLeaf (p\<lparr>getFileCache := cache,
               settings := (settings p)\<lparr>privateNoteMarker := marker\<rparr>\<rparr>) view
             = (case view_file view of
                  None \<Rightarrow> Inr False
                | Some f \<Rightarrow> (case parent f of
                               None \<Rightarrow> Inl TypeError
                             | Some d \<Rightarrow> Inr (\<not> sublist (path d) (privateDirs (settings p)))))"
  using assms
  by (simp add: shouldRevealLeaf_def markerRule_def directoryRule_def contains_sublist
      split: option.splits)

text \<open>
  Without an editor, the note tagged \<^verbatim>\<open>#private\<close> is revealed in \<^verbatim>\<open>work/notes\<close> and
  hidden in \<^verbatim>\<open>therapy\<close>.
\<close>

theorem directory_rule_alone_without_editor_witness:
  "shouldRevealLeaf (scenarioPlugin taggedNote) (scenarioView False ''work/notes'') = Inr True
   \<and> shouldRevealLeaf (scenarioPlugin taggedNote) (scenarioView False ''therapy'') = Inr False"
proof -
  have a: "currentLevel (scenarioPlugin taggedNote) = HidePrivate" by (simp add: scenario_defs)
  have b: "isMarkdownFileInfoView (scenarioView False d)" for d
    by (simp add: scenario_defs isMarkdownFileInfoView_def)
  have c: "\<not> editor (scenarioView False d)" for d by (simp add: scenario_defs)
  show ?thesis
    using directory_rule_alone_without_editor[OF a b c, of "''work/notes''"]
      directory_rule_alone_without_editor[OF a b c, of "''therapy''"]
    by (simp add: scenario_defs directoryRule_def view_file_def contains_sublist[symmetric])
qed


section \<open>The idle monitor: claims\<close>

text \<open>
  C6, as stated, fails: the tick has a third guard, on the time of the last event. With
  a timeout of 5 seconds, at level RevealAll, a last event at time 0 and a tick at 6000
  milliseconds, the level does not change. The guard returns before anything is
  computed; the difference 6000 - 0 and the quotient 6000 / 1000 are exact in doubles,
  so the operations of the reals are the code's at these inputs, and the elapsed
  seconds are 6.
\<close>

theorem idle_tick_zero_timestamp:
  "blurOnIdleTimeoutSeconds (settings (idlePlugin 5 (Some 0))) = 5
   \<and> currentLevel (idlePlugin 5 (Some 0)) = RevealAll
   \<and> (6000 - 0) / 1000 \<ge> (5::real)
   \<and> checkIdleTimeout (-) (/) 6000 (idlePlugin 5 (Some 0)) = (idlePlugin 5 (Some 0), None)"
  by (simp add: checkIdleTimeout_def idlePlugin_def scenario_defs)

text \<open>
  C6, amended: whatever doubles the subtraction and the division of the machine return,
  one tick moves the level to HideAll exactly when the timeout is not negative, the
  level is not HideAll already, a time of last event is recorded and is not zero, and
  the elapsed seconds as the code computes them, the double \<open>fdiv (fsub now t) 1000\<close>,
  are at least the timeout. In every other case the tick changes nothing; so it does
  with a negative timeout.
\<close>

theorem checkIdleTimeout_transition:
  "((currentLevel p \<noteq> HideAll \<and> currentLevel (fst (checkIdleTimeout fsub fdiv now p)) = HideAll)
      = (0 \<le> blurOnIdleTimeoutSeconds (settings p) \<and> currentLevel p \<noteq> HideAll
         \<and> (\<exists>t. lastEventTime p = Some t \<and> t \<noteq> 0
                \<and> blurOnIdleTimeoutSeconds (settings p) \<le> fdiv (fsub now t) 1000)))
   \<and> (\<not> (0 \<le> blurOnIdleTimeoutSeconds (settings p) \<and> currentLevel p \<noteq> HideAll
         \<and> (\<exists>t. lastEventTime p = Some t \<and> t \<noteq> 0
                \<and> blurOnIdleTimeoutSeconds (settings p) \<le> fdiv (fsub now t) 1000))
        \<longrightarrow> checkIdleTimeout fsub fdiv now p = (p, None))
   \<and> (blurOnIdleTimeoutSeconds (settings p) < 0
        \<longrightarrow> checkIdleTimeout fsub fdiv now p = (p, None))"
  by (auto simp: checkIdleTimeout_def updateLeavesAndGlobalReveals_level split: option.splits)

text \<open>
  The scenario of C6, with the last event at 1000 milliseconds and a timeout of 5: the
  tick at 7000 milliseconds, 6000 later, moves the level to HideAll, and the tick at
  5000 milliseconds, 4000 later, changes nothing. With a timeout of 6 the tick at 7000
  is on the boundary and moves the level; with a timeout of -1 it changes nothing. All
  the numbers involved are integers far below \<^verbatim>\<open>2^53\<close>: 7000 - 1000, 5000 - 1000,
  6000 / 1000 and 4000 / 1000 are exact in doubles, so the operations of the reals are
  the code's at these inputs.
\<close>

theorem checkIdleTimeout_transition_witness:
  "currentLevel (idlePlugin 5 (Some 1000)) = RevealAll
   \<and> currentLevel (fst (checkIdleTimeout (-) (/) 7000 (idlePlugin 5 (Some 1000)))) = HideAll
   \<and> checkIdleTimeout (-) (/) 5000 (idlePlugin 5 (Some 1000)) = (idlePlugin 5 (Some 1000), None)
   \<and> currentLevel (fst (checkIdleTimeout (-) (/) 7000 (idlePlugin 6 (Some 1000)))) = HideAll
   \<and> checkIdleTimeout (-) (/) 7000 (idlePlugin (- 1) (Some 1000))
       = (idlePlugin (- 1) (Some 1000), None)"
  using checkIdleTimeout_transition[of "idlePlugin 5 (Some 1000)" "(-)" "(/)" 7000]
    checkIdleTimeout_transition[of "idlePlugin 5 (Some 1000)" "(-)" "(/)" 5000]
    checkIdleTimeout_transition[of "idlePlugin 6 (Some 1000)" "(-)" "(/)" 7000]
    checkIdleTimeout_transition[of "idlePlugin (- 1) (Some 1000)" "(-)" "(/)" 7000]
  by (simp add: idlePlugin_def scenario_defs)

section \<open>The hook: claims\<close>

text \<open>
  C7, as stated, fails: nothing ever removes an element from \<^verbatim>\<open>revealed\<close>. With two
  side panels open at level HidePrivate, one pass over the leaves puts both elements in
  the array, the before-callback leaves both there, and a second pass appends both again.
\<close>

theorem revealed_never_cleared:
  "revealed (fst (updateLeavesStyle twoPanels)) = [1, 2]
   \<and> revealed (onBeforeViewStateChange (fst (updateLeavesStyle twoPanels))) = [1, 2]
   \<and> revealed (fst (updateLeavesStyle (fst (updateLeavesStyle twoPanels)))) = [1, 2, 1, 2]"
  by (simp add: style_defs onBeforeViewStateChange_def shouldRevealLeaf_def
      isMarkdownFileInfoView_def twoPanels_def sidePanel_def scenario_defs)

text \<open>
  C7, amended: the wrapper runs the before-callback first and hands the state it leaves
  to the underlying switch operation; in that state no element of \<^verbatim>\<open>revealed\<close> carries
  the reveal class, whichever panel is being switched. The array itself is left as it
  was. A pass over the leaves keeps what the array holds and appends to it the element
  of each view it reveals.
\<close>

theorem before_callback_clears_markings:
  "(\<forall>r \<in> set (revealed p). Reveal \<notin> classList (onBeforeViewStateChange p) r
                              \<and> PrivacyGlassesReveal \<notin> classList (onBeforeViewStateChange p) r)
   \<and> revealed (onBeforeViewStateChange p) = revealed p
   \<and> wrapper onBeforeViewStateChange onAfterViewStateChange original p
       = wrapper (\<lambda>s. s) onAfterViewStateChange original (onBeforeViewStateChange p)
   \<and> prefix (revealed p) (revealed (fst (updateLeavesStyle p)))
   \<and> (snd (updateLeavesStyle p) = None \<longrightarrow>
        revealed (fst (updateLeavesStyle p))
          = revealed p @ map containerEl (filter (\<lambda>v. shouldRevealLeaf p v = Inr True) (leaves p)))"
proof -
  obtain p' x where s: "iterateAllLeaves updateLeafViewStyle (leaves p) p = (p', x)"
    by (cases "iterateAllLeaves updateLeafViewStyle (leaves p) p")
  have "prefix (revealed p) (revealed (fst (updateLeavesStyle p)))"
    using iterateAllLeaves_revealed_prefix[OF s] s by (simp add: updateLeavesStyle_def)
  moreover have "snd (updateLeavesStyle p) = None \<longrightarrow>
        revealed (fst (updateLeavesStyle p))
          = revealed p @ map containerEl (filter (\<lambda>v. shouldRevealLeaf p v = Inr True) (leaves p))"
    using iterateAllLeaves_revealed[of "leaves p" p p'] s by (auto simp: updateLeavesStyle_def)
  moreover have "\<forall>r \<in> set (revealed p). Reveal \<notin> classList (onBeforeViewStateChange p) r
                              \<and> PrivacyGlassesReveal \<notin> classList (onBeforeViewStateChange p) r"
    by (simp add: onBeforeViewStateChange_def foldl_removeClass Reveal_def PrivacyGlassesReveal_def)
  moreover have "revealed (onBeforeViewStateChange p) = revealed p"
    by (simp add: onBeforeViewStateChange_def)
  moreover have "wrapper onBeforeViewStateChange onAfterViewStateChange original p
       = wrapper (\<lambda>s. s) onAfterViewStateChange original (onBeforeViewStateChange p)"
    by (simp add: wrapper_def)
  ultimately show ?thesis by blast
qed

text \<open>
  After a pass over the two side panels both elements are in \<^verbatim>\<open>revealed\<close> and carry the
  class; after the before-callback neither carries it.
\<close>

theorem before_callback_clears_markings_witness:
  "set (revealed (fst (updateLeavesStyle twoPanels))) = {1, 2}
   \<and> PrivacyGlassesReveal \<in> classList (fst (updateLeavesStyle twoPanels)) 1
   \<and> PrivacyGlassesReveal \<in> classList (fst (updateLeavesStyle twoPanels)) 2
   \<and> PrivacyGlassesReveal \<notin> classList (onBeforeViewStateChange (fst (updateLeavesStyle twoPanels))) 1
   \<and> PrivacyGlassesReveal \<notin> classList (onBeforeViewStateChange (fst (updateLeavesStyle twoPanels))) 2"
proof -
  let ?p = "fst (updateLeavesStyle twoPanels)"
  have r: "revealed ?p = [1, 2]"
    by (simp add: style_defs shouldRevealLeaf_def isMarkdownFileInfoView_def twoPanels_def
        sidePanel_def scenario_defs)
  have c: "PrivacyGlassesReveal \<in> classList ?p 1 \<and> PrivacyGlassesReveal \<in> classList ?p 2"
    by (simp add: style_defs shouldRevealLeaf_def isMarkdownFileInfoView_def twoPanels_def
        sidePanel_def scenario_defs)
  show ?thesis
    using before_callback_clears_markings[of ?p] r c by simp
qed


text \<open>
  C8, as stated, fails: the probe \<^verbatim>\<open>isHooked\<close> asks for an own property \<^verbatim>\<open>setState\<close>
  that is a function, not for a wrapper. A panel that has such a property of its own is
  found hooked though nothing was installed on it, and a pass over the leaves, or two,
  leaves it with no wrapper, next to a panel that gets one.
\<close>

theorem own_setState_function_never_wrapped:
  "isHooked (ownSetStatePanel 3 (HostSetState 1))
   \<and> wrapperLayers (setState (ownSetStatePanel 3 (HostSetState 1))) = 0
   \<and> map (\<lambda>v. wrapperLayers (setState v)) (leaves (ensureLeavesHooked mixedPanels)) = [1, 1, 0]
   \<and> map (\<lambda>v. wrapperLayers (setState v))
         (leaves (ensureLeavesHooked (ensureLeavesHooked mixedPanels))) = [1, 1, 0]"
  by (simp add: ensureLeavesHooked_def mixedPanels_def ownSetStatePanel_def sidePanel_def
      isHooked_def hookViewStateChanged_def setState_def)

text \<open>
  C8, amended: hooking is idempotent. The probe finds a panel hooked exactly when the
  panel has an own property \<^verbatim>\<open>setState\<close> that is a function, wrapper or not. Any number
  of passes over the leaves, one at least, leaves every panel hooked for the probe, does
  not touch a panel the probe found hooked, and gives every other panel one wrapper
  around the \<^verbatim>\<open>setState\<close> of its prototype, so one layer more than the prototype's
  function has: exactly one when that is not a wrapper. A second pass changes nothing,
  and neither does a second call of \<^verbatim>\<open>hookViewStateChanged\<close> on the same view, which
  wraps the prototype's function again and not the wrapper.
\<close>

theorem hook_installed_once:
  "ensureLeavesHooked (ensureLeavesHooked p) = ensureLeavesHooked p
   \<and> hookViewStateChanged (hookViewStateChanged view) = hookViewStateChanged view
   \<and> isHooked view = (\<exists>f. own_setState view = Some f \<and> f \<noteq> NotAFunction)
   \<and> length (leaves ((ensureLeavesHooked ^^ Suc n) p)) = length (leaves p)
   \<and> (\<forall>i < length (leaves p).
         isHooked (leaves ((ensureLeavesHooked ^^ Suc n) p) ! i)
         \<and> (isHooked (leaves p ! i)
              \<longrightarrow> leaves ((ensureLeavesHooked ^^ Suc n) p) ! i = leaves p ! i)
         \<and> (\<not> isHooked (leaves p ! i)
              \<longrightarrow> leaves ((ensureLeavesHooked ^^ Suc n) p) ! i
                    = (leaves p ! i)\<lparr>own_setState := Some (Wrapper (proto_setState (leaves p ! i)))\<rparr>
                  \<and> setState (leaves ((ensureLeavesHooked ^^ Suc n) p) ! i)
                    = Wrapper (proto_setState (leaves p ! i))
                  \<and> wrapperLayers (setState (leaves ((ensureLeavesHooked ^^ Suc n) p) ! i))
                    = Suc (wrapperLayers (proto_setState (leaves p ! i)))))"
proof -
  have "isHooked view = (\<exists>f. own_setState view = Some f \<and> f \<noteq> NotAFunction)"
  proof (cases "own_setState view")
    case None
    then show ?thesis by (simp add: isHooked_def)
  next
    case (Some f)
    then show ?thesis by (cases f) (simp_all add: isHooked_def)
  qed
  moreover have "hookViewStateChanged (hookViewStateChanged view) = hookViewStateChanged view"
    by (simp add: hookViewStateChanged_def)
  moreover have "length (leaves (ensureLeavesHooked p)) = length (leaves p)"
    by (simp add: ensureLeavesHooked_def)
  moreover have "\<forall>i < length (leaves p).
         isHooked (leaves (ensureLeavesHooked p) ! i)
         \<and> (isHooked (leaves p ! i) \<longrightarrow> leaves (ensureLeavesHooked p) ! i = leaves p ! i)
         \<and> (\<not> isHooked (leaves p ! i)
              \<longrightarrow> leaves (ensureLeavesHooked p) ! i
                    = (leaves p ! i)\<lparr>own_setState := Some (Wrapper (proto_setState (leaves p ! i)))\<rparr>
                  \<and> setState (leaves (ensureLeavesHooked p) ! i)
                    = Wrapper (proto_setState (leaves p ! i))
                  \<and> wrapperLayers (setState (leaves (ensureLeavesHooked p) ! i))
                    = Suc (wrapperLayers (proto_setState (leaves p ! i))))"
    by (simp add: ensureLeavesHooked_def isHooked_hookViewStateChanged)
       (simp add: hookViewStateChanged_def setState_def)
  ultimately show ?thesis
    unfolding ensureLeavesHooked_funpow using ensureLeavesHooked_idem by blast
qed

text \<open>
  Two passes over the three panels: the panel of the host and the panel whose own
  \<^verbatim>\<open>setState\<close> is not a function get one wrapper each, around the function of their
  prototype; the panel with a function of its own is found hooked and stays as it was.
\<close>

theorem hook_installed_once_witness:
  "map isHooked (leaves mixedPanels) = [False, False, True]
   \<and> map setState (leaves ((ensureLeavesHooked ^^ Suc (Suc 0)) mixedPanels))
       = [Wrapper (HostSetState 0), Wrapper (HostSetState 0), HostSetState 1]
   \<and> ensureLeavesHooked (ensureLeavesHooked mixedPanels) = ensureLeavesHooked mixedPanels"
proof -
  note t = hook_installed_once[of mixedPanels "sidePanel 1" "Suc 0"]
  let ?q = "(ensureLeavesHooked ^^ Suc (Suc 0)) mixedPanels"
  have l: "leaves mixedPanels
             = [sidePanel 1, ownSetStatePanel 2 NotAFunction, ownSetStatePanel 3 (HostSetState 1)]"
    by (simp add: mixedPanels_def)
  have h: "map isHooked (leaves mixedPanels) = [False, False, True]"
    by (simp add: l ownSetStatePanel_def sidePanel_def isHooked_def)
  from t have n: "length (leaves ?q) = length (leaves mixedPanels)"
    by blast
  from t have a: "\<forall>i < length (leaves mixedPanels).
       (isHooked (leaves mixedPanels ! i) \<longrightarrow> leaves ?q ! i = leaves mixedPanels ! i)
       \<and> (\<not> isHooked (leaves mixedPanels ! i)
            \<longrightarrow> setState (leaves ?q ! i) = Wrapper (proto_setState (leaves mixedPanels ! i)))"
    by blast
  have "setState (leaves ?q ! 0) = Wrapper (HostSetState 0)"
    using a[rule_format, of 0] by (simp add: l sidePanel_def isHooked_def)
  moreover have "setState (leaves ?q ! Suc 0) = Wrapper (HostSetState 0)"
    using a[rule_format, of "Suc 0"] by (simp add: l ownSetStatePanel_def sidePanel_def isHooked_def)
  moreover have "setState (leaves ?q ! Suc (Suc 0)) = HostSetState 1"
    using a[rule_format, of "Suc (Suc 0)"]
    by (simp add: l ownSetStatePanel_def sidePanel_def isHooked_def setState_def)
  moreover from n have "length (leaves ?q) = Suc (Suc (Suc 0))"
    by (simp add: l)
  ultimately have "map setState (leaves ?q)
       = [Wrapper (HostSetState 0), Wrapper (HostSetState 0), HostSetState 1]"
    by (simp add: list_eq_iff_nth_eq nth_Cons' less_Suc_eq)
  moreover from t
  have "ensureLeavesHooked (ensureLeavesHooked mixedPanels) = ensureLeavesHooked mixedPanels"
    by blast
  ultimately show ?thesis using h by blast
qed

text \<open>
  C2, as stated, fails: the after-callback is not run when the switch operation fails.
  With a counter as the state and the successor as the after-callback, the counter is
  still 0 after a switch operation that throws, and after one that returns a promise
  which is rejected. The failure itself reaches the caller as it is.
\<close>

theorem wrapper_failure_skips_after_callback:
  "wrapper (\<lambda>n. n) Suc (\<lambda>n. (n, Throw (HostError ''switch failed''))) (0::nat)
     = (0, Throw (HostError ''switch failed''))
   \<and> wrapper (\<lambda>n. n) Suc
         (\<lambda>n. (n, Return (Thenable (Rejected (HostError ''switch failed''))))) (0::nat)
     = (0, Return (Thenable (Rejected (HostError ''switch failed''))))"
  by (simp add: wrapper_def)

text \<open>
  C2, amended: if the underlying switch operation fails, by throwing or by returning a
  promise that is rejected, the failure reaches the caller unchanged and the
  after-callback is not run. If it succeeds, by returning a promise that is fulfilled or
  a value, other than \<^verbatim>\<open>undefined\<close> and \<^verbatim>\<open>null\<close>, that is not a thenable, the caller gets
  what it returned and the after-callback is run exactly once, on the state the
  operation left. A promise that never settles never runs it, and on \<^verbatim>\<open>undefined\<close> or
  \<^verbatim>\<open>null\<close> the wrapper itself raises a TypeError before running it.
\<close>

theorem wrapper_after_callback_on_success_only:
  assumes "original (onBeforeStateChange s) = (s', c)"
  shows "((c = Throw e \<or> c = Return (Thenable (Rejected e)))
            \<longrightarrow> wrapper onBeforeStateChange onAfterStateChange original s = (s', c))
         \<and> ((c = Return NonThenable \<or> c = Return (Thenable Fulfilled))
            \<longrightarrow> wrapper onBeforeStateChange onAfterStateChange original s
                  = (onAfterStateChange s', c))
         \<and> (c = Return (Thenable Pending)
            \<longrightarrow> wrapper onBeforeStateChange onAfterStateChange original s = (s', c))
         \<and> (c = Return Undefined
            \<longrightarrow> wrapper onBeforeStateChange onAfterStateChange original s
                  = (s', Throw TypeError))"
  using assms by (auto simp: wrapper_def)

text \<open>The four outcomes, with a counter as the state.\<close>

theorem wrapper_after_callback_on_success_only_witness:
  "wrapper (\<lambda>n. n) Suc (\<lambda>n. (n, Return (Thenable Fulfilled))) (0::nat)
     = (Suc 0, Return (Thenable Fulfilled))
   \<and> wrapper (\<lambda>n. n) Suc (\<lambda>n. (n, Return NonThenable)) (0::nat) = (Suc 0, Return NonThenable)
   \<and> wrapper (\<lambda>n. n) Suc (\<lambda>n. (n, Return (Thenable (Rejected TypeError)))) (0::nat)
     = (0, Return (Thenable (Rejected TypeError)))
   \<and> wrapper (\<lambda>n. n) Suc (\<lambda>n. (n, Throw TypeError)) (0::nat) = (0, Throw TypeError)"
  using wrapper_after_callback_on_success_only
          [of "\<lambda>n. (n, Return (Thenable Fulfilled))" "\<lambda>n. n" "0::nat" 0 "Return (Thenable Fulfilled)" TypeError Suc]
        wrapper_after_callback_on_success_only
          [of "\<lambda>n. (n, Return NonThenable)" "\<lambda>n. n" "0::nat" 0 "Return NonThenable" TypeError Suc]
        wrapper_after_callback_on_success_only
          [of "\<lambda>n. (n, Return (Thenable (Rejected TypeError)))" "\<lambda>n. n" "0::nat" 0
              "Return (Thenable (Rejected TypeError))" TypeError Suc]
        wrapper_after_callback_on_success_only
          [of "\<lambda>n. (n, Throw TypeError)" "\<lambda>n. n" "0::nat" 0 "Throw TypeError" TypeError Suc]
  by simp

end
